theory Spec2Isabelle
  imports Complex_Main
begin

section \<open>Data model\<close>

text \<open>
  The program computes on JavaScript numbers. Finite numbers are modelled as
  mathematical reals (rounding and overflow are not modelled); the values
  \<open>Infinity\<close> and \<open>NaN\<close> are modelled explicitly where the code can
  produce them. Month counts and ages are integers.
\<close>

datatype jsnum = Fin real | PInf | NaN

text \<open>\<open>type Lump = { id: number; month: number; amount: number }\<close>\<close>

record Lump =
  lump_id :: int
  month :: real
  amount :: real

text \<open>A row \<open>{ m: number; wealth: number }\<close> of a projection.\<close>

record Row =
  m :: int
  wealth :: real

section \<open>Lump-sum schedule\<close>

text \<open>\<open>byMonth.get(k) || 0\<close>\<close>

definition getOr0 :: "(int \<rightharpoonup> real) \<Rightarrow> int \<Rightarrow> real" where
  "getOr0 byMonth k = (case byMonth k of None \<Rightarrow> 0 | Some v \<Rightarrow> v)"

text \<open>
  The loop \<open>for (const ls of lumpSums) { const m = clip(ls.month);
  byMonth.set(m, (byMonth.get(m) || 0) + (Number(ls.amount) || 0)); }\<close>,
  which the three functions below share up to the clipping expression.
\<close>

fun addLumps :: "(real \<Rightarrow> int) \<Rightarrow> Lump list \<Rightarrow> (int \<rightharpoonup> real) \<Rightarrow> (int \<rightharpoonup> real)" where
  "addLumps clip [] byMonth = byMonth"
| "addLumps clip (ls # rest) byMonth =
     addLumps clip rest
       (byMonth(clip (month ls) \<mapsto> getOr0 byMonth (clip (month ls)) + amount ls))"

text \<open>\<open>Math.max(0, Math.min(months, Math.floor(ls.month)))\<close>\<close>

definition clipMonth :: "int \<Rightarrow> real \<Rightarrow> int" where
  "clipMonth months mo = max 0 (min months \<lfloor>mo\<rfloor>)"

section \<open>Single-regime projection\<close>

text \<open>
  The loop \<open>for (let t = 0; t <= months; t++) { rows.push({ m: t, wealth: W });
  W = W * (1 + monthlyRealReturn) + monthlySaving + (byMonth.get(t + 1) || 0); }\<close>
\<close>

function accumLoop :: "(int \<rightharpoonup> real) \<Rightarrow> real \<Rightarrow> real \<Rightarrow> int \<Rightarrow> int \<Rightarrow> real \<Rightarrow> Row list" where
  "accumLoop byMonth monthlySaving monthlyRealReturn months t W =
     (if t \<le> months
      then \<lparr>m = t, wealth = W\<rparr> #
           accumLoop byMonth monthlySaving monthlyRealReturn months (t + 1)
             (W * (1 + monthlyRealReturn) + monthlySaving + getOr0 byMonth (t + 1))
      else [])"
  by pat_completeness auto
termination
  by (relation "measure (\<lambda>(byMonth, monthlySaving, monthlyRealReturn, months, t, W). nat (months + 1 - t))") auto

declare accumLoop.simps [simp del]

definition projectToRetirement :: "real \<Rightarrow> real \<Rightarrow> int \<Rightarrow> real \<Rightarrow> Lump list \<Rightarrow> Row list" where
  "projectToRetirement currentWealth monthlySaving months monthlyRealReturn lumpSums =
     accumLoop (addLumps (clipMonth months) lumpSums Map.empty)
       monthlySaving monthlyRealReturn months 0 currentWealth"

text \<open>\<open>arr[arr.length - 1]?.wealth ?? currentWealth\<close>\<close>

definition lastWealth :: "Row list \<Rightarrow> real \<Rightarrow> real" where
  "lastWealth arr currentWealth = (if arr = [] then currentWealth else wealth (last arr))"

definition wealthAtRetireWithMonthlyAccum :: "real \<Rightarrow> real \<Rightarrow> int \<Rightarrow> Lump list \<Rightarrow> real \<Rightarrow> real" where
  "wealthAtRetireWithMonthlyAccum currentWealth monthlySaving monthsToRetire lumpSums monthlyRate =
     lastWealth (projectToRetirement currentWealth monthlySaving monthsToRetire monthlyRate lumpSums)
       currentWealth"

section \<open>Two-regime projection\<close>

text \<open>
  The loop \<open>for (let t = 0; t <= monthsTo100; t++) { rows.push({ m: t, wealth:
  Math.max(0, W) }); if (t < monthsToRetire) { W = W * (1 + monthlyAccumReturn) +
  monthlySaving + (byMonth.get(t + 1) || 0); } else { W = W * (1 + monthlyRetireReturn)
  - monthlySpend; } }\<close>
\<close>

function fullLoop :: "(int \<rightharpoonup> real) \<Rightarrow> int \<Rightarrow> real \<Rightarrow> real \<Rightarrow> real \<Rightarrow> real \<Rightarrow> int \<Rightarrow> int \<Rightarrow> real \<Rightarrow> Row list" where
  "fullLoop byMonth monthsToRetire monthlySaving monthlyAccumReturn monthlyRetireReturn
      monthlySpend monthsTo100 t W =
     (if t \<le> monthsTo100
      then \<lparr>m = t, wealth = max 0 W\<rparr> #
           fullLoop byMonth monthsToRetire monthlySaving monthlyAccumReturn monthlyRetireReturn
             monthlySpend monthsTo100 (t + 1)
             (if t < monthsToRetire
              then W * (1 + monthlyAccumReturn) + monthlySaving + getOr0 byMonth (t + 1)
              else W * (1 + monthlyRetireReturn) - monthlySpend)
      else [])"
  by pat_completeness auto
termination
  by (relation "measure (\<lambda>(byMonth, monthsToRetire, monthlySaving, monthlyAccumReturn,
        monthlyRetireReturn, monthlySpend, monthsTo100, t, W). nat (monthsTo100 + 1 - t))") auto

declare fullLoop.simps [simp del]

definition projectFullTo100 :: "int \<Rightarrow> real \<Rightarrow> int \<Rightarrow> real \<Rightarrow> real \<Rightarrow> real \<Rightarrow> real \<Rightarrow> Lump list \<Rightarrow> Row list" where
  "projectFullTo100 age currentWealth monthsToRetire monthlySaving monthlyAccumReturn
      monthlyRetireReturn monthlySpend lumpSums =
     (let monthsTo100 = max 0 ((100 - age) * 12)
      in fullLoop (addLumps (clipMonth monthsToRetire) lumpSums Map.empty) monthsToRetire
           monthlySaving monthlyAccumReturn monthlyRetireReturn monthlySpend monthsTo100 0
           currentWealth)"

section \<open>Required-return solver\<close>

text \<open>
  Inside the solver a number can be \<open>NaN\<close>: \<open>Math.pow\<close> of a negative base
  and the exponent \<open>1/12\<close> is \<open>NaN\<close>, and \<open>NaN\<close> propagates through
  the arithmetic and makes every comparison false. Such a number is a
  \<open>real option\<close>, with \<open>None\<close> for \<open>NaN\<close>.
\<close>

text \<open>\<open>const toMonthly = (annual) => Math.pow(1 + annual, 1/12) - 1\<close>\<close>

definition toMonthly :: "real \<Rightarrow> real option" where
  "toMonthly annual =
     (if 1 + annual < 0 then None else Some ((1 + annual) powr (1 / 12) - 1))"

text \<open>
  \<open>wealthAtRetireWithMonthlyAccum(rate) - target\<close> for a rate that may be
  \<open>NaN\<close>: with at least one step every later row is \<open>NaN\<close>; with no step
  the rate is never used.
\<close>

definition fAt :: "real \<Rightarrow> real \<Rightarrow> int \<Rightarrow> Lump list \<Rightarrow> real \<Rightarrow> real option \<Rightarrow> real option" where
  "fAt currentWealth monthlySaving monthsToRetire lumpSums target rate =
     (case rate of
        Some r \<Rightarrow>
          Some (wealthAtRetireWithMonthlyAccum currentWealth monthlySaving monthsToRetire lumpSums r
                - target)
      | None \<Rightarrow> if 1 \<le> monthsToRetire then None else Some (currentWealth - target))"

text \<open>\<open>a * b > 0\<close>, \<open>a * b <= 0\<close> and \<open>Math.abs(a) < 1\<close>, false on \<open>NaN\<close>.\<close>

definition prodPos :: "real option \<Rightarrow> real option \<Rightarrow> bool" where
  "prodPos a b = (case (a, b) of (Some x, Some y) \<Rightarrow> x * y > 0 | _ \<Rightarrow> False)"

definition prodNonpos :: "real option \<Rightarrow> real option \<Rightarrow> bool" where
  "prodNonpos a b = (case (a, b) of (Some x, Some y) \<Rightarrow> x * y \<le> 0 | _ \<Rightarrow> False)"

definition absLt1 :: "real option \<Rightarrow> bool" where
  "absLt1 a = (case a of Some x \<Rightarrow> \<bar>x\<bar> < 1 | None \<Rightarrow> False)"

text \<open>
  The bracket expansion \<open>for (let i=0; i<10 && fLo*fHi>0; i++) { loA -= 0.25;
  hiA += 0.25; ...; fLo = ...; fHi = ...; if (hiA > 3) break; }\<close>, with the
  objective \<open>f\<close> as a function of the annual rate.
\<close>

function expandLoop :: "(real \<Rightarrow> real option) \<Rightarrow> nat \<Rightarrow> real \<Rightarrow> real \<Rightarrow> real option \<Rightarrow> real option
    \<Rightarrow> real \<times> real \<times> real option \<times> real option" where
  "expandLoop f i loA hiA fLo fHi =
     (if i < 10 \<and> prodPos fLo fHi
      then (let loA' = loA - 0.25; hiA' = hiA + 0.25; fLo' = f loA'; fHi' = f hiA'
            in if hiA' > 3 then (loA', hiA', fLo', fHi')
               else expandLoop f (i + 1) loA' hiA' fLo' fHi')
      else (loA, hiA, fLo, fHi))"
  by pat_completeness auto
termination
  by (relation "measure (\<lambda>(f, i, loA, hiA, fLo, fHi). 10 - i)") auto

declare expandLoop.simps [simp del]

text \<open>
  The bisection \<open>for (let it=0; it<40; it++) { const midA = (loA + hiA)/2; ...;
  if (Math.abs(fMid) < 1) return midA; if (fLo * fMid <= 0) { hiA = midA; fHi = fMid; }
  else { loA = midA; fLo = fMid; } } return (loA + hiA)/2;\<close>
\<close>

function bisectLoop :: "(real \<Rightarrow> real option) \<Rightarrow> nat \<Rightarrow> real \<Rightarrow> real \<Rightarrow> real option \<Rightarrow> real option \<Rightarrow> real" where
  "bisectLoop f it loA hiA fLo fHi =
     (if it < 40
      then (let midA = (loA + hiA) / 2; fMid = f midA
            in if absLt1 fMid then midA
               else if prodNonpos fLo fMid then bisectLoop f (it + 1) loA midA fLo fMid
               else bisectLoop f (it + 1) midA hiA fMid fHi)
      else (loA + hiA) / 2)"
  by pat_completeness auto
termination
  by (relation "measure (\<lambda>(f, it, loA, hiA, fLo, fHi). 40 - it)") auto

declare bisectLoop.simps [simp del]

text \<open>The solver returns \<open>null\<close> or a number.\<close>

datatype solved = Null | Rate real

text \<open>
  \<open>solveRequiredMonthlyAccum(target)\<close>. The variables it closes over are
  parameters; \<open>wealthAtRetire\<close> is the last wealth of the accumulation at
  the plan's own monthly rate \<open>monthlyAccum\<close>.
\<close>

definition wealthAtRetire :: "real \<Rightarrow> real \<Rightarrow> int \<Rightarrow> real \<Rightarrow> Lump list \<Rightarrow> real" where
  "wealthAtRetire currentWealth monthlySaving monthsToRetire monthlyAccum lumpSums =
     lastWealth (projectToRetirement currentWealth monthlySaving monthsToRetire monthlyAccum lumpSums)
       currentWealth"

definition solveRequiredMonthlyAccum :: "real \<Rightarrow> real \<Rightarrow> int \<Rightarrow> real \<Rightarrow> Lump list \<Rightarrow> real \<Rightarrow> solved" where
  "solveRequiredMonthlyAccum currentWealth monthlySaving monthsToRetire monthlyAccum lumpSums target =
     (if monthsToRetire \<le> 0 then Null
      else
        let f = (\<lambda>annual. fAt currentWealth monthlySaving monthsToRetire lumpSums target
                            (toMonthly annual));
            fLo = f (- 0.5);
            fHi = f 0.5
        in if wealthAtRetire currentWealth monthlySaving monthsToRetire monthlyAccum lumpSums
               \<ge> target
           then Rate 0
           else (case expandLoop f 0 (- 0.5) 0.5 fLo fHi of
                   (loA, hiA, fLo', fHi') \<Rightarrow>
                     if prodPos fLo' fHi' then Null
                     else Rate (bisectLoop f 0 loA hiA fLo' fHi')))"

section \<open>Runway\<close>

text \<open>
  \<open>yearsOfRunway\<close>. In the last branch \<open>ratio\<close> is positive, so
  \<open>-Math.log(ratio)\<close> is finite; \<open>Math.log(1 + r)\<close> is \<open>-Infinity\<close> at
  \<open>r = -1\<close> (the quotient is then a zero) and \<open>NaN\<close> below.
\<close>

definition yearsOfRunway :: "real \<Rightarrow> real \<Rightarrow> real \<Rightarrow> jsnum" where
  "yearsOfRunway startingWealth annualSpend realReturnAnnual =
     (let r = realReturnAnnual / 100
      in if annualSpend \<le> 0 then PInf
         else if r = 0 then Fin (startingWealth / annualSpend)
         else let ratio = 1 - (startingWealth * r) / annualSpend
              in if ratio \<le> 0 then PInf
                 else if 0 < 1 + r then Fin (- ln ratio / ln (1 + r))
                 else if 1 + r = 0 then Fin 0
                 else NaN)"

section \<open>Goal-time estimator\<close>

text \<open>\<open>Math.max(1, Math.floor(ls.month))\<close>\<close>

definition goalClip :: "real \<Rightarrow> int" where
  "goalClip mo = max 1 \<lfloor>mo\<rfloor>"

text \<open>
  The loop \<open>for (let t = 0; t <= cap; t++) { if (W >= targetWealth) return t;
  W = W * (1 + r) + monthlySaving + (byMonth.get(t + 1) || 0); } return Infinity;\<close>
\<close>

function goalLoop :: "(int \<rightharpoonup> real) \<Rightarrow> real \<Rightarrow> real \<Rightarrow> real \<Rightarrow> int \<Rightarrow> int \<Rightarrow> real \<Rightarrow> jsnum" where
  "goalLoop byMonth monthlySaving r targetWealth cap t W =
     (if t \<le> cap
      then (if W \<ge> targetWealth then Fin (of_int t)
            else goalLoop byMonth monthlySaving r targetWealth cap (t + 1)
                   (W * (1 + r) + monthlySaving + getOr0 byMonth (t + 1)))
      else PInf)"
  by pat_completeness auto
termination
  by (relation "measure (\<lambda>(byMonth, monthlySaving, r, targetWealth, cap, t, W). nat (cap + 1 - t))") auto

declare goalLoop.simps [simp del]

definition monthsToGoalAtCurrentPlan :: "real \<Rightarrow> real \<Rightarrow> real \<Rightarrow> Lump list \<Rightarrow> real \<Rightarrow> jsnum" where
  "monthsToGoalAtCurrentPlan targetWealth currentWealth monthlySaving lumpSums monthlyAccum =
     (if targetWealth \<le> 0 then Fin 0
      else goalLoop (addLumps goalClip lumpSums Map.empty) monthlySaving monthlyAccum
             targetWealth 1200 0 currentWealth)"


section \<open>The unfloored wealth trajectory\<close>

text \<open>
  The value of \<open>W\<close> after \<open>k\<close> accumulation steps started at month \<open>t\<close>:
  a specification of the loop body iterated, against which the loops are
  characterised.
\<close>

fun accumW :: "(int \<rightharpoonup> real) \<Rightarrow> real \<Rightarrow> real \<Rightarrow> int \<Rightarrow> real \<Rightarrow> nat \<Rightarrow> real" where
  "accumW byMonth s r t W 0 = W"
| "accumW byMonth s r t W (Suc k) =
     accumW byMonth s r t W k * (1 + r) + s + getOr0 byMonth (t + int k + 1)"

text \<open>
  The value of \<open>W\<close> after \<open>k\<close> steps of the two-regime loop started at month
  \<open>t\<close>; each step works on the previous unfloored value.
\<close>

fun fullW :: "(int \<rightharpoonup> real) \<Rightarrow> int \<Rightarrow> real \<Rightarrow> real \<Rightarrow> real \<Rightarrow> real \<Rightarrow> int \<Rightarrow> real \<Rightarrow> nat \<Rightarrow> real" where
  "fullW byMonth monthsToRetire s acc ret spend t W 0 = W"
| "fullW byMonth monthsToRetire s acc ret spend t W (Suc k) =
     (if t + int k < monthsToRetire
      then fullW byMonth monthsToRetire s acc ret spend t W k * (1 + acc) + s
           + getOr0 byMonth (t + int k + 1)
      else fullW byMonth monthsToRetire s acc ret spend t W k * (1 + ret) - spend)"

text \<open>
  The goal-time estimator as the specification words it, independent of the code's
  bucket map: the lump of month \<open>k\<close> is the sum of the amounts of the lump sums
  whose month, floored and raised to at least 1, is \<open>k\<close>; the wealth starts at the
  current wealth and each month becomes
  \<open>wealth (1 + monthlyRate) + periodicFlow + lump of the next month\<close>.
\<close>

definition specLumpOfMonth :: "Lump list \<Rightarrow> int \<Rightarrow> real" where
  "specLumpOfMonth lumpSums k =
     sum_list (map amount (filter (\<lambda>l. max 1 \<lfloor>month l\<rfloor> = k) lumpSums))"

fun specGoalWealth :: "real \<Rightarrow> real \<Rightarrow> real \<Rightarrow> Lump list \<Rightarrow> nat \<Rightarrow> real" where
  "specGoalWealth currentWealth periodicFlow monthlyRate lumpSums 0 = currentWealth"
| "specGoalWealth currentWealth periodicFlow monthlyRate lumpSums (Suc k) =
     specGoalWealth currentWealth periodicFlow monthlyRate lumpSums k * (1 + monthlyRate)
     + periodicFlow + specLumpOfMonth lumpSums (int k + 1)"

section \<open>The projection loop and the trajectory\<close>

lemma accumW_shift:
  "accumW byMonth s r t W (Suc k) =
   accumW byMonth s r (t + 1) (W * (1 + r) + s + getOr0 byMonth (t + 1)) k"
  by (induction k) (simp_all add: add.commute add.left_commute)

lemma accumLoop_rows:
  "accumLoop byMonth s r months t W =
   map (\<lambda>k. \<lparr>m = t + int k, wealth = accumW byMonth s r t W k\<rparr>) [0..<nat (months + 1 - t)]"
proof (induction byMonth s r months t W rule: accumLoop.induct)
  case (1 byMonth s r months t W)
  show ?case
  proof (cases "t \<le> months")
    case False
    then show ?thesis by (simp add: accumLoop.simps)
  next
    case True
    then have n: "nat (months + 1 - t) = Suc (nat (months + 1 - (t + 1)))" by simp
    have "accumLoop byMonth s r months t W =
          \<lparr>m = t, wealth = W\<rparr> #
          map (\<lambda>k. \<lparr>m = t + 1 + int k,
                    wealth = accumW byMonth s r (t + 1) (W * (1 + r) + s + getOr0 byMonth (t + 1)) k\<rparr>)
            [0..<nat (months + 1 - (t + 1))]"
      using True "1.IH" by (subst accumLoop.simps) simp
    also have "\<dots> = map (\<lambda>k. \<lparr>m = t + int k, wealth = accumW byMonth s r t W k\<rparr>)
                      [0..<nat (months + 1 - t)]"
      unfolding n upt_conv_Cons [OF zero_less_Suc] map_Suc_upt [symmetric]
      by (simp add: accumW_shift del: accumW.simps(2) upt_Suc)
    finally show ?thesis .
  qed
qed

lemma accumLoop_nonempty: "0 \<le> months \<Longrightarrow> accumLoop byMonth s r months 0 W \<noteq> []"
  by (subst accumLoop.simps) simp

lemma accumLoop_last:
  assumes "0 \<le> months"
  shows "wealth (last (accumLoop byMonth s r months 0 W)) = accumW byMonth s r 0 W (nat months)"
proof -
  have n: "nat (months + 1 - 0) = Suc (nat months)" using assms by simp
  show ?thesis
    unfolding accumLoop_rows n by (simp add: last_map del: accumW.simps)
qed

lemma accumLoop_length: "length (accumLoop byMonth s r months 0 W) = nat (months + 1)"
  by (simp add: accumLoop_rows)

lemma accumLoop_nth:
  assumes "k < nat (months + 1)"
  shows "accumLoop byMonth s r months 0 W ! k = \<lparr>m = int k, wealth = accumW byMonth s r 0 W k\<rparr>"
  using assms unfolding accumLoop_rows by (simp del: accumW.simps upt_Suc)

section \<open>Closed form of the accumulation without lump sums\<close>

lemma getOr0_empty [simp]: "getOr0 Map.empty k = 0"
  by (simp add: getOr0_def)

lemma accumW_closed_form:
  assumes "r \<noteq> 0"
  shows "accumW Map.empty s r t W n = W * (1 + r) ^ n + s * ((1 + r) ^ n - 1) / r"
proof (induction n)
  case 0
  show ?case by simp
next
  case (Suc n)
  have "accumW Map.empty s r t W (Suc n) =
        (W * (1 + r) ^ n + s * ((1 + r) ^ n - 1) / r) * (1 + r) + s"
    using Suc.IH by simp
  also have "\<dots> = W * (1 + r) ^ Suc n + s * ((1 + r) ^ Suc n - 1) / r"
    using assms by (simp add: field_simps)
  finally show ?case .
qed

text \<open>
  C7. With an empty lump-sum list, a month count \<open>n \<ge> 0\<close> and a monthly rate
  \<open>r \<noteq> 0\<close>, the single-regime projection has a last row, and its wealth is the
  annuity value \<open>W0 (1 + r)^n + s ((1 + r)^n - 1) / r\<close>.
\<close>

theorem projectToRetirement_annuity:
  assumes "r \<noteq> 0" and "0 \<le> n"
  shows "projectToRetirement W0 s n r [] \<noteq> [] \<and>
         wealth (last (projectToRetirement W0 s n r [])) =
           W0 * (1 + r) ^ nat n + s * ((1 + r) ^ nat n - 1) / r"
  using assms
  by (simp add: projectToRetirement_def accumLoop_nonempty accumLoop_last accumW_closed_form)

theorem projectToRetirement_annuity_witness:
  "(1::real) \<noteq> 0 \<and> (0::int) \<le> 2 \<and> projectToRetirement 100 10 2 1 [] \<noteq> [] \<and>
   wealth (last (projectToRetirement 100 10 2 1 [])) = 430"
  using projectToRetirement_annuity [of 1 2 100 10] by simp

section \<open>Runway\<close>

text \<open>
  C5. \<open>yearsOfRunway\<close> is infinite whenever the annual spend is not positive;
  it is \<open>startingWealth / annualSpend\<close> when the rate \<open>r = pct / 100\<close> is 0;
  it is infinite when \<open>r \<noteq> 0\<close> and \<open>ratio = 1 - startingWealth r / annualSpend\<close>
  is not positive; otherwise it is \<open>- ln ratio / ln (1 + r)\<close>, which JavaScript
  evaluates to a zero at \<open>r = -1\<close> and to \<open>NaN\<close> for \<open>r < -1\<close>.
\<close>

theorem yearsOfRunway_cases:
  "(annualSpend \<le> 0 \<longrightarrow> yearsOfRunway W annualSpend pct = PInf) \<and>
   (0 < annualSpend \<and> pct / 100 = 0 \<longrightarrow>
      yearsOfRunway W annualSpend pct = Fin (W / annualSpend)) \<and>
   (0 < annualSpend \<and> pct / 100 \<noteq> 0 \<and> 1 - (W * (pct / 100)) / annualSpend \<le> 0 \<longrightarrow>
      yearsOfRunway W annualSpend pct = PInf) \<and>
   (0 < annualSpend \<and> pct / 100 \<noteq> 0 \<and> 0 < 1 - (W * (pct / 100)) / annualSpend \<and>
      - 1 < pct / 100 \<longrightarrow>
      yearsOfRunway W annualSpend pct =
        Fin (- ln (1 - (W * (pct / 100)) / annualSpend) / ln (1 + pct / 100))) \<and>
   (0 < annualSpend \<and> 0 < 1 - (W * (pct / 100)) / annualSpend \<and> pct / 100 = - 1 \<longrightarrow>
      yearsOfRunway W annualSpend pct = Fin 0) \<and>
   (0 < annualSpend \<and> 0 < 1 - (W * (pct / 100)) / annualSpend \<and> pct / 100 < - 1 \<longrightarrow>
      yearsOfRunway W annualSpend pct = NaN)"
  by (auto simp: yearsOfRunway_def Let_def)

theorem yearsOfRunway_cases_witness:
  "yearsOfRunway 5 0 3 = PInf \<and>
   yearsOfRunway 50 10 0 = Fin 5 \<and>
   yearsOfRunway 20 10 100 = PInf \<and>
   yearsOfRunway 1 2 100 = Fin 1 \<and>
   yearsOfRunway 1 2 (- 100) = Fin 0 \<and>
   yearsOfRunway 1 2 (- 200) = NaN"
proof -
  have "- ln (1 / 2 :: real) / ln 2 = 1"
    by (simp add: ln_div)
  then show ?thesis
    using yearsOfRunway_cases [of 0 5 3] yearsOfRunway_cases [of 10 50 0]
      yearsOfRunway_cases [of 10 20 100] yearsOfRunway_cases [of 2 1 100]
      yearsOfRunway_cases [of 2 1 "- 100"] yearsOfRunway_cases [of 2 1 "- 200"]
    by simp
qed

section \<open>The two-regime loop and its trajectory\<close>

lemma fullW_shift:
  "fullW byMonth mtr s acc ret spend t W (Suc k) =
   fullW byMonth mtr s acc ret spend (t + 1)
     (if t < mtr then W * (1 + acc) + s + getOr0 byMonth (t + 1) else W * (1 + ret) - spend) k"
proof (induction k)
  case 0
  show ?case by simp
next
  case (Suc k)
  have e: "t + int (Suc k) = t + 1 + int k" "t + int (Suc k) + 1 = t + 1 + int k + 1"
    by simp_all
  show ?case
    unfolding fullW.simps(2) [of _ _ _ _ _ _ _ _ "Suc k"] Suc.IH e
    unfolding fullW.simps(2) [of _ _ _ _ _ _ "t + 1"] ..
qed

lemma fullLoop_rows:
  "fullLoop byMonth mtr s acc ret spend months100 t W =
   map (\<lambda>k. \<lparr>m = t + int k, wealth = max 0 (fullW byMonth mtr s acc ret spend t W k)\<rparr>)
     [0..<nat (months100 + 1 - t)]"
proof (induction byMonth mtr s acc ret spend months100 t W rule: fullLoop.induct)
  case (1 byMonth mtr s acc ret spend months100 t W)
  show ?case
  proof (cases "t \<le> months100")
    case False
    then show ?thesis by (simp add: fullLoop.simps)
  next
    case True
    define W' where
      "W' = (if t < mtr then W * (1 + acc) + s + getOr0 byMonth (t + 1) else W * (1 + ret) - spend)"
    from True have n: "nat (months100 + 1 - t) = Suc (nat (months100 + 1 - (t + 1)))" by simp
    have "fullLoop byMonth mtr s acc ret spend months100 t W =
          \<lparr>m = t, wealth = max 0 W\<rparr> #
          map (\<lambda>k. \<lparr>m = t + 1 + int k,
                    wealth = max 0 (fullW byMonth mtr s acc ret spend (t + 1) W' k)\<rparr>)
            [0..<nat (months100 + 1 - (t + 1))]"
      using True "1.IH" unfolding W'_def by (subst fullLoop.simps) simp
    also have "\<dots> = map (\<lambda>k. \<lparr>m = t + int k,
                                wealth = max 0 (fullW byMonth mtr s acc ret spend t W k)\<rparr>)
                      [0..<nat (months100 + 1 - t)]"
      unfolding n upt_conv_Cons [OF zero_less_Suc] map_Suc_upt [symmetric] W'_def
      by (simp add: fullW_shift del: fullW.simps(2) upt_Suc)
    finally show ?thesis .
  qed
qed

lemma fullW_accum:
  "t + int k \<le> mtr \<Longrightarrow>
   fullW byMonth mtr s acc ret spend t W k = accumW byMonth s acc t W k"
  by (induction k) simp_all

lemma projectFullTo100_rows:
  "projectFullTo100 age cw mtr s acc ret spend lumps =
   map (\<lambda>k. \<lparr>m = int k,
             wealth = max 0 (fullW (addLumps (clipMonth mtr) lumps Map.empty) mtr s acc ret spend
                               0 cw k)\<rparr>)
     [0..<nat (max 0 ((100 - age) * 12) + 1)]"
  by (simp add: projectFullTo100_def Let_def fullLoop_rows del: upt_Suc)

lemma projectFullTo100_example:
  "map wealth (projectFullTo100 99 0 12 10 0 0 0 [\<lparr>lump_id = 1, month = 1, amount = - 100\<rparr>]) =
   [0, 0, 0, 0, 0, 0, 0, 0, 0, 0, 0, 10, 20]"
  by (simp add: projectFullTo100_def fullLoop.simps clipMonth_def getOr0_def)

section \<open>Flooring at emission\<close>

text \<open>
  C8. Every row of the two-regime projection has wealth \<open>\<ge> 0\<close>, and row \<open>k\<close>
  is \<open>max 0\<close> of the running wealth \<open>fullW \<dots> k\<close>, whose recurrence works on
  the unfloored value of the step before: the floor is applied to what is
  emitted and to nothing else.
\<close>

theorem projectFullTo100_floor_at_emission:
  "(\<forall>row \<in> set (projectFullTo100 age cw mtr s acc ret spend lumps). 0 \<le> wealth row) \<and>
   projectFullTo100 age cw mtr s acc ret spend lumps =
     map (\<lambda>k. \<lparr>m = int k,
               wealth = max 0 (fullW (addLumps (clipMonth mtr) lumps Map.empty) mtr s acc ret
                                 spend 0 cw k)\<rparr>)
       [0..<nat (max 0 ((100 - age) * 12) + 1)]"
proof
  show "\<forall>row \<in> set (projectFullTo100 age cw mtr s acc ret spend lumps). 0 \<le> wealth row"
    unfolding projectFullTo100_rows by (auto simp del: upt_Suc)
  show "projectFullTo100 age cw mtr s acc ret spend lumps =
     map (\<lambda>k. \<lparr>m = int k,
               wealth = max 0 (fullW (addLumps (clipMonth mtr) lumps Map.empty) mtr s acc ret
                                 spend 0 cw k)\<rparr>)
       [0..<nat (max 0 ((100 - age) * 12) + 1)]"
    by (rule projectFullTo100_rows)
qed

text \<open>
  The running wealth falls to \<open>-90\<close> after the first step and climbs back by 10 a
  month: the rows show 0 up to month 10, then 10 and 20. A floor fed back into the
  loop would give 110 at month 12.
\<close>

theorem projectFullTo100_floor_at_emission_witness:
  "list_all (\<lambda>row. 0 \<le> wealth row)
     (projectFullTo100 99 0 12 10 0 0 0 [\<lparr>lump_id = 1, month = 1, amount = - 100\<rparr>]) \<and>
   map wealth (projectFullTo100 99 0 12 10 0 0 0 [\<lparr>lump_id = 1, month = 1, amount = - 100\<rparr>]) =
     [0, 0, 0, 0, 0, 0, 0, 0, 0, 0, 0, 10, 20]"
  using projectFullTo100_floor_at_emission
          [of 99 0 12 10 0 0 0 "[\<lparr>lump_id = 1, month = 1, amount = - 100\<rparr>]"]
        projectFullTo100_example
  unfolding list_all_iff by blast

section \<open>Accumulation horizon beyond the total horizon\<close>

lemma accumLoop_rows0:
  "accumLoop byMonth s r months 0 W =
   map (\<lambda>k. \<lparr>m = int k, wealth = accumW byMonth s r 0 W k\<rparr>) [0..<nat (months + 1)]"
  by (simp add: accumLoop_rows del: upt_Suc)

text \<open>
  C10. When \<open>monthsToRetire\<close> is at least the total horizon \<open>monthsTo100\<close>,
  every emitted row comes from accumulation steps only (the series is the
  floored accumulation series over the total horizon), so two runs that
  differ only in the retirement return and the monthly spend give the same rows.
\<close>

theorem projectFullTo100_accum_only:
  assumes "max 0 ((100 - age) * 12) \<le> mtr"
  shows "projectFullTo100 age cw mtr s acc ret spend lumps =
           projectFullTo100 age cw mtr s acc ret' spend' lumps \<and>
         projectFullTo100 age cw mtr s acc ret spend lumps =
           map (\<lambda>row. row\<lparr>wealth := max 0 (wealth row)\<rparr>)
             (accumLoop (addLumps (clipMonth mtr) lumps Map.empty) s acc
                (max 0 ((100 - age) * 12)) 0 cw)"
proof -
  have "projectFullTo100 age cw mtr s acc x y lumps =
        map (\<lambda>row. row\<lparr>wealth := max 0 (wealth row)\<rparr>)
          (accumLoop (addLumps (clipMonth mtr) lumps Map.empty) s acc
             (max 0 ((100 - age) * 12)) 0 cw)" for x y
    unfolding projectFullTo100_rows accumLoop_rows0 map_map
  proof (rule map_cong [OF refl])
    fix k assume "k \<in> set [0..<nat (max 0 ((100 - age) * 12) + 1)]"
    then have "0 + int k \<le> mtr" using assms by auto
    then show "\<lparr>m = int k, wealth = max 0 (fullW (addLumps (clipMonth mtr) lumps Map.empty) mtr s
                  acc x y 0 cw k)\<rparr> =
           ((\<lambda>row. row\<lparr>wealth := max 0 (wealth row)\<rparr>) \<circ>
            (\<lambda>k. \<lparr>m = int k, wealth = accumW (addLumps (clipMonth mtr) lumps Map.empty) s acc 0
                     cw k\<rparr>)) k"
      by (simp add: fullW_accum)
  qed
  then show ?thesis by simp
qed

theorem projectFullTo100_accum_only_witness:
  "max 0 ((100 - 99) * 12) \<le> (12::int) \<and>
   projectFullTo100 99 100 12 10 0 (1 / 2) 1000 [] = projectFullTo100 99 100 12 10 0 0 0 []"
  using projectFullTo100_accum_only
          [where age = 99 and mtr = 12 and cw = 100 and s = 10 and acc = 0 and ret = "1 / 2"
             and spend = 1000 and lumps = "[]" and ret' = 0 and spend' = 0]
  by simp

section \<open>Lump sums in the schedule\<close>

lemma getOr0_upd: "getOr0 (byMonth(k' \<mapsto> v)) k = (if k = k' then v else getOr0 byMonth k)"
  by (simp add: getOr0_def)

lemma addLumps_getOr0:
  "getOr0 (addLumps clip lumps byMonth) k =
   getOr0 byMonth k + sum_list (map amount (filter (\<lambda>ls. clip (month ls) = k) lumps))"
  by (induction lumps arbitrary: byMonth) (simp_all add: getOr0_upd)

lemma addLumps_insert:
  "getOr0 (addLumps clip (xs @ ls # ys) byMonth) k =
   getOr0 (addLumps clip (xs @ ys) byMonth) k + (if clip (month ls) = k then amount ls else 0)"
  by (simp add: addLumps_getOr0)

lemma accumW_cong:
  "(\<And>j. t < j \<Longrightarrow> j \<le> t + int k \<Longrightarrow> getOr0 byMonth j = getOr0 byMonth' j) \<Longrightarrow>
   accumW byMonth s r t W k = accumW byMonth' s r t W k"
  by (induction k) simp_all

lemma clipMonth_above: "0 \<le> months \<Longrightarrow> real_of_int months < mo \<Longrightarrow> clipMonth months mo = months"
  by (simp add: clipMonth_def min_def le_floor_iff)

lemma clipMonth_below: "mo \<le> 0 \<Longrightarrow> clipMonth months mo = 0"
proof -
  assume "mo \<le> 0"
  then have "\<lfloor>mo\<rfloor> \<le> 0" using floor_mono [of mo 0] by simp
  then show ?thesis unfolding clipMonth_def by linarith
qed

lemma projectToRetirement_rows:
  "projectToRetirement W0 s months r lumps =
   map (\<lambda>k. \<lparr>m = int k, wealth = accumW (addLumps (clipMonth months) lumps Map.empty) s r 0 W0 k\<rparr>)
     [0..<nat (months + 1)]"
  by (simp add: projectToRetirement_def accumLoop_rows0)

lemma projectToRetirement_drop_bucket0:
  assumes "clipMonth months (month ls) = 0"
  shows "projectToRetirement W0 s months r (xs @ ls # ys) =
         projectToRetirement W0 s months r (xs @ ys)"
  unfolding projectToRetirement_rows
proof (rule map_cong [OF refl])
  fix k
  have "accumW (addLumps (clipMonth months) (xs @ ls # ys) Map.empty) s r 0 W0 k =
        accumW (addLumps (clipMonth months) (xs @ ys) Map.empty) s r 0 W0 k"
    by (rule accumW_cong) (simp add: addLumps_insert assms)
  then show "\<lparr>m = int k,
               wealth = accumW (addLumps (clipMonth months) (xs @ ls # ys) Map.empty) s r 0 W0 k\<rparr> =
             \<lparr>m = int k,
               wealth = accumW (addLumps (clipMonth months) (xs @ ys) Map.empty) s r 0 W0 k\<rparr>"
    by simp
qed

lemma projectToRetirement_last:
  "0 \<le> months \<Longrightarrow>
   wealth (last (projectToRetirement W0 s months r lumps)) =
   accumW (addLumps (clipMonth months) lumps Map.empty) s r 0 W0 (nat months)"
  by (simp add: projectToRetirement_def accumLoop_last)

lemma projectToRetirement_at_horizon:
  assumes "1 \<le> months" and "clipMonth months (month ls) = months"
  shows "take (nat months) (projectToRetirement W0 s months r (xs @ ls # ys)) =
           take (nat months) (projectToRetirement W0 s months r (xs @ ys))"
    and "wealth (last (projectToRetirement W0 s months r (xs @ ls # ys))) =
           wealth (last (projectToRetirement W0 s months r (xs @ ys))) + amount ls"
proof -
  let ?A = "addLumps (clipMonth months) (xs @ ls # ys) Map.empty"
  let ?B = "addLumps (clipMonth months) (xs @ ys) Map.empty"
  have same: "accumW ?A s r 0 W0 k = accumW ?B s r 0 W0 k" if "int k < months" for k
    by (rule accumW_cong) (use that assms in \<open>simp add: addLumps_insert\<close>)
  have n: "nat (months + 1) = Suc (nat months)" using assms by simp
  show "take (nat months) (projectToRetirement W0 s months r (xs @ ls # ys)) =
        take (nat months) (projectToRetirement W0 s months r (xs @ ys))"
    unfolding projectToRetirement_rows n take_map
    by (rule map_cong) (auto simp: same simp del: upt_Suc)
  obtain n' where n': "nat months = Suc n'" using assms by (cases "nat months") simp_all
  then have key: "0 + int n' + 1 = months" "int n' < months" by linarith+
  have "accumW ?A s r 0 W0 (Suc n') = accumW ?B s r 0 W0 (Suc n') + amount ls"
    unfolding accumW.simps key using same [OF key(2)] assms by (simp add: addLumps_insert)
  then show "wealth (last (projectToRetirement W0 s months r (xs @ ls # ys))) =
        wealth (last (projectToRetirement W0 s months r (xs @ ys))) + amount ls"
    using assms n' by (simp add: projectToRetirement_last del: accumW.simps)
qed

lemma clipMonth_no_horizon: "months \<le> 0 \<Longrightarrow> clipMonth months mo = 0"
  unfolding clipMonth_def by linarith

text \<open>
  C4, as stated, fails at a horizon of 0 months: a lump sum of 7 at month 50 lies
  beyond the horizon, but no step ends at month 0. It is folded into bucket 0 and
  never applied: the only row keeps the wealth 100, and the series is that of the
  empty list.
\<close>

theorem lump_beyond_zero_horizon_not_applied:
  "real_of_int 0 < month \<lparr>lump_id = 1, month = 50, amount = 7\<rparr> \<and>
   projectToRetirement 100 0 0 0 [\<lparr>lump_id = 1, month = 50, amount = 7\<rparr>] =
     [\<lparr>m = 0, wealth = 100\<rparr>] \<and>
   projectToRetirement 100 0 0 0 [] = [\<lparr>m = 0, wealth = 100\<rparr>]"
  by (simp add: projectToRetirement_def accumLoop.simps)

text \<open>
  C4, amended. In the single-regime projection the bucket of month \<open>k\<close> holds the
  sum of the amounts of the lump sums whose month clips to \<open>k\<close> under
  \<open>max 0 (min horizon (floor month))\<close>. With a horizon of at least 1 month, a lump
  sum with month beyond the horizon is applied in the step that ends at the horizon
  month: the rows before the last are unchanged and the last row grows by its
  amount. With a horizon of 0 months (or less) every lump sum is folded into bucket 0
  and changes no row. A lump sum with month \<open>\<le> 0\<close> changes no row at any horizon:
  the series is that of the list without it.
\<close>

theorem projectToRetirement_lump_clipping:
  "getOr0 (addLumps (clipMonth months) lumps Map.empty) k =
     sum_list (map amount (filter (\<lambda>l. max 0 (min months \<lfloor>month l\<rfloor>) = k) lumps)) \<and>
   (1 \<le> months \<and> real_of_int months < month ls \<longrightarrow>
      take (nat months) (projectToRetirement cw s months r (xs @ ls # ys)) =
        take (nat months) (projectToRetirement cw s months r (xs @ ys)) \<and>
      wealth (last (projectToRetirement cw s months r (xs @ ls # ys))) =
        wealth (last (projectToRetirement cw s months r (xs @ ys))) + amount ls) \<and>
   (months \<le> 0 \<longrightarrow>
      projectToRetirement cw s months r (xs @ ls # ys) =
        projectToRetirement cw s months r (xs @ ys)) \<and>
   (month ls \<le> 0 \<longrightarrow>
      projectToRetirement cw s months r (xs @ ls # ys) =
        projectToRetirement cw s months r (xs @ ys))"
proof (intro conjI impI)
  show "getOr0 (addLumps (clipMonth months) lumps Map.empty) k =
     sum_list (map amount (filter (\<lambda>l. max 0 (min months \<lfloor>month l\<rfloor>) = k) lumps))"
    by (simp add: addLumps_getOr0 clipMonth_def)
next
  assume a: "1 \<le> months \<and> real_of_int months < month ls"
  then have c: "clipMonth months (month ls) = months" by (simp add: clipMonth_above)
  from a have m1: "1 \<le> months" by simp
  show "take (nat months) (projectToRetirement cw s months r (xs @ ls # ys)) =
        take (nat months) (projectToRetirement cw s months r (xs @ ys))"
    by (rule projectToRetirement_at_horizon(1) [OF m1 c])
  show "wealth (last (projectToRetirement cw s months r (xs @ ls # ys))) =
        wealth (last (projectToRetirement cw s months r (xs @ ys))) + amount ls"
    by (rule projectToRetirement_at_horizon(2) [OF m1 c])
next
  assume "months \<le> 0"
  then show "projectToRetirement cw s months r (xs @ ls # ys) =
             projectToRetirement cw s months r (xs @ ys)"
    by (simp add: projectToRetirement_drop_bucket0 clipMonth_no_horizon)
next
  assume "month ls \<le> 0"
  then show "projectToRetirement cw s months r (xs @ ls # ys) =
             projectToRetirement cw s months r (xs @ ys)"
    by (simp add: projectToRetirement_drop_bucket0 clipMonth_below)
qed

theorem projectToRetirement_lump_clipping_witness:
  "getOr0 (addLumps (clipMonth 3) [\<lparr>lump_id = 1, month = 53, amount = 7\<rparr>,
       \<lparr>lump_id = 2, month = 3, amount = 5\<rparr>] Map.empty) 3 = 12 \<and>
   (1::int) \<le> 3 \<and> real_of_int 3 < month \<lparr>lump_id = 1, month = 53, amount = 7\<rparr> \<and>
   take 3 (projectToRetirement 0 0 3 0 [\<lparr>lump_id = 1, month = 53, amount = 7\<rparr>]) =
     take 3 (projectToRetirement 0 0 3 0 []) \<and>
   wealth (last (projectToRetirement 0 0 3 0 [\<lparr>lump_id = 1, month = 53, amount = 7\<rparr>])) =
     wealth (last (projectToRetirement 0 0 3 0 [])) + 7 \<and>
   (0::int) \<le> 0 \<and>
   projectToRetirement 0 0 0 0 [\<lparr>lump_id = 1, month = 53, amount = 7\<rparr>] =
     projectToRetirement 0 0 0 0 [] \<and>
   month \<lparr>lump_id = 2, month = - 5, amount = 7\<rparr> \<le> 0 \<and>
   projectToRetirement 0 0 3 0 [\<lparr>lump_id = 2, month = - 5, amount = 7\<rparr>] =
     projectToRetirement 0 0 3 0 []"
  using projectToRetirement_lump_clipping
          [where months = 3 and k = 3 and cw = 0 and s = 0 and r = 0 and xs = "[]" and ys = "[]"
             and ls = "\<lparr>lump_id = 1, month = 53, amount = 7\<rparr>"
             and lumps = "[\<lparr>lump_id = 1, month = 53, amount = 7\<rparr>,
                           \<lparr>lump_id = 2, month = 3, amount = 5\<rparr>]"]
        projectToRetirement_lump_clipping
          [where months = 0 and k = 3 and cw = 0 and s = 0 and r = 0 and xs = "[]" and ys = "[]"
             and ls = "\<lparr>lump_id = 1, month = 53, amount = 7\<rparr>" and lumps = "[]"]
        projectToRetirement_lump_clipping
          [where months = 3 and k = 3 and cw = 0 and s = 0 and r = 0 and xs = "[]" and ys = "[]"
             and ls = "\<lparr>lump_id = 2, month = - 5, amount = 7\<rparr>" and lumps = "[]"]
  by simp

section \<open>Goal-time estimator\<close>

lemma goalLoop_found:
  "targetWealth \<le> accumW byMonth s r t W k \<Longrightarrow>
   (\<And>j. j < k \<Longrightarrow> accumW byMonth s r t W j < targetWealth) \<Longrightarrow>
   t + int k \<le> cap \<Longrightarrow>
   goalLoop byMonth s r targetWealth cap t W = Fin (of_int (t + int k))"
proof (induction k arbitrary: t W)
  case 0
  then show ?case by (subst goalLoop.simps) simp
next
  case (Suc k)
  let ?W' = "W * (1 + r) + s + getOr0 byMonth (t + 1)"
  have lt: "W < targetWealth" using Suc.prems(2) [of 0] by simp
  have le: "t \<le> cap" using Suc.prems(3) by simp
  have "goalLoop byMonth s r targetWealth cap (t + 1) ?W' = Fin (of_int (t + 1 + int k))"
  proof (rule Suc.IH)
    show "targetWealth \<le> accumW byMonth s r (t + 1) ?W' k"
      using Suc.prems(1) unfolding accumW_shift .
    show "accumW byMonth s r (t + 1) ?W' j < targetWealth" if "j < k" for j
      using Suc.prems(2) [of "Suc j"] that unfolding accumW_shift by simp
    show "t + 1 + int k \<le> cap" using Suc.prems(3) by simp
  qed
  then show ?case
    using lt le by (subst goalLoop.simps) (simp add: add.assoc add.commute)
qed

lemma goalLoop_unreachable:
  "(\<And>k. t + int k \<le> cap \<Longrightarrow> accumW byMonth s r t W k < targetWealth) \<Longrightarrow>
   goalLoop byMonth s r targetWealth cap t W = PInf"
proof (induction byMonth s r targetWealth cap t W rule: goalLoop.induct)
  case (1 byMonth s r targetWealth cap t W)
  show ?case
  proof (cases "t \<le> cap")
    case False
    then show ?thesis by (subst goalLoop.simps) simp
  next
    case True
    let ?W' = "W * (1 + r) + s + getOr0 byMonth (t + 1)"
    have lt: "W < targetWealth" using "1.prems" [of 0] True by simp
    have "goalLoop byMonth s r targetWealth cap (t + 1) ?W' = PInf"
    proof (rule "1.IH")
      show "t \<le> cap" by (rule True)
      show "\<not> targetWealth \<le> W" using lt by simp
      show "accumW byMonth s r (t + 1) ?W' k < targetWealth" if "t + 1 + int k \<le> cap" for k
        using "1.prems" [of "Suc k"] that unfolding accumW_shift by simp
    qed
    then show ?thesis using True lt by (subst goalLoop.simps) simp
  qed
qed

lemma accumW_specGoalWealth:
  "accumW (addLumps goalClip lumps Map.empty) s r 0 cw k = specGoalWealth cw s r lumps k"
  by (induction k) (simp_all add: addLumps_getOr0 goalClip_def specLumpOfMonth_def)

text \<open>
  C6. The estimator returns 0 whenever the target is \<open>\<le> 0\<close>. Otherwise, with
  \<open>W k\<close> the wealth after \<open>k\<close> months of the step rule
  (\<open>W 0\<close> the current wealth,
  \<open>W (k + 1) = W k (1 + monthlyRate) + periodicFlow + lump of month k + 1\<close>), it
  returns the first month \<open>k \<le> 1200\<close> with \<open>W k \<ge> target\<close>, and infinity when no
  month up to 1200 has \<open>W k \<ge> target\<close>.
\<close>

theorem monthsToGoalAtCurrentPlan_first_month:
  "(target \<le> 0 \<longrightarrow> monthsToGoalAtCurrentPlan target cw s lumps r = Fin 0) \<and>
   (0 < target \<longrightarrow>
      (\<forall>k. k \<le> 1200 \<and> target \<le> specGoalWealth cw s r lumps k \<and>
            (\<forall>j<k. specGoalWealth cw s r lumps j < target) \<longrightarrow>
            monthsToGoalAtCurrentPlan target cw s lumps r = Fin (real k)) \<and>
      ((\<forall>k\<le>1200. specGoalWealth cw s r lumps k < target) \<longrightarrow>
         monthsToGoalAtCurrentPlan target cw s lumps r = PInf))"
proof (intro conjI impI allI)
  assume "target \<le> 0"
  then show "monthsToGoalAtCurrentPlan target cw s lumps r = Fin 0"
    by (simp add: monthsToGoalAtCurrentPlan_def)
next
  fix k :: nat
  assume pos: "0 < target"
    and k: "k \<le> 1200 \<and> target \<le> specGoalWealth cw s r lumps k \<and>
            (\<forall>j<k. specGoalWealth cw s r lumps j < target)"
  have "goalLoop (addLumps goalClip lumps Map.empty) s r target 1200 0 cw =
        Fin (of_int (0 + int k))"
    by (rule goalLoop_found) (use k in \<open>simp_all add: accumW_specGoalWealth\<close>)
  then show "monthsToGoalAtCurrentPlan target cw s lumps r = Fin (real k)"
    using pos by (simp add: monthsToGoalAtCurrentPlan_def)
next
  assume pos: "0 < target"
    and none: "\<forall>k\<le>1200. specGoalWealth cw s r lumps k < target"
  have "goalLoop (addLumps goalClip lumps Map.empty) s r target 1200 0 cw = PInf"
    by (rule goalLoop_unreachable) (use none in \<open>simp add: accumW_specGoalWealth\<close>)
  then show "monthsToGoalAtCurrentPlan target cw s lumps r = PInf"
    using pos by (simp add: monthsToGoalAtCurrentPlan_def)
qed

text \<open>
  A saving of 10 a month reaches 100 at month 10; a lump sum of 100 at month 3 brings
  that to month 3, and one at month 1 reaches 50 at month 1. A lump sum of \<open>-5\<close> on
  an empty plan never reaches 1.
\<close>

theorem monthsToGoalAtCurrentPlan_first_month_witness:
  "monthsToGoalAtCurrentPlan 0 5 1 [\<lparr>lump_id = 1, month = 3, amount = 100\<rparr>] 0 = Fin 0 \<and>
   monthsToGoalAtCurrentPlan 100 0 10 [] 0 = Fin 10 \<and>
   monthsToGoalAtCurrentPlan 100 0 10 [\<lparr>lump_id = 1, month = 3, amount = 100\<rparr>] 0 = Fin 3 \<and>
   monthsToGoalAtCurrentPlan 50 0 0 [\<lparr>lump_id = 1, month = 1, amount = 100\<rparr>] 0 = Fin 1 \<and>
   monthsToGoalAtCurrentPlan 1 0 0 [\<lparr>lump_id = 1, month = 2, amount = - 5\<rparr>] 0 = PInf"
proof -
  let ?L3 = "[\<lparr>lump_id = 1, month = 3, amount = 100\<rparr>]"
  let ?L1 = "[\<lparr>lump_id = 1, month = 1, amount = 100\<rparr>]"
  let ?N = "[\<lparr>lump_id = 1, month = 2, amount = - 5\<rparr>]"
  have a: "monthsToGoalAtCurrentPlan 0 5 1 ?L3 0 = Fin 0"
    using monthsToGoalAtCurrentPlan_first_month [of 0 5 1 ?L3 0] by simp
  have w: "specGoalWealth 0 10 0 [] k = 10 * real k" for k
    by (induction k) (simp_all add: specLumpOfMonth_def algebra_simps)
  have "(10::nat) \<le> 1200 \<and> 100 \<le> specGoalWealth 0 10 0 [] 10 \<and>
        (\<forall>j<10. specGoalWealth 0 10 0 [] j < 100)"
    unfolding w by auto
  moreover have pos: "(0::real) < 100" by simp
  ultimately have "monthsToGoalAtCurrentPlan 100 0 10 [] 0 = Fin (real (10::nat))"
    using monthsToGoalAtCurrentPlan_first_month [of 100 0 10 "[]" 0] by blast
  then have b: "monthsToGoalAtCurrentPlan 100 0 10 [] 0 = Fin 10" by simp
  have w3: "specGoalWealth 0 10 0 ?L3 0 = 0" "specGoalWealth 0 10 0 ?L3 1 = 10"
    "specGoalWealth 0 10 0 ?L3 2 = 20" "specGoalWealth 0 10 0 ?L3 3 = 130"
    by (simp_all add: specLumpOfMonth_def eval_nat_numeral)
  have all3: "\<forall>j<3. specGoalWealth 0 10 0 ?L3 j < 100"
  proof (intro allI impI)
    fix j :: nat
    assume "j < 3"
    then consider "j = 0" | "j = 1" | "j = 2" by linarith
    then show "specGoalWealth 0 10 0 ?L3 j < 100"
    proof cases
      case 1
      then show ?thesis unfolding 1 w3(1) by simp
    next
      case 2
      then show ?thesis unfolding 2 w3(2) by simp
    next
      case 3
      then show ?thesis unfolding 3 w3(3) by simp
    qed
  qed
  have "(3::nat) \<le> 1200" by simp
  moreover have "100 \<le> specGoalWealth 0 10 0 ?L3 3" unfolding w3(4) by simp
  ultimately have "(3::nat) \<le> 1200 \<and> 100 \<le> specGoalWealth 0 10 0 ?L3 3 \<and>
        (\<forall>j<3. specGoalWealth 0 10 0 ?L3 j < 100)"
    using all3 by blast
  with pos have "monthsToGoalAtCurrentPlan 100 0 10 ?L3 0 = Fin (real (3::nat))"
    using monthsToGoalAtCurrentPlan_first_month [of 100 0 10 ?L3 0] by blast
  then have c: "monthsToGoalAtCurrentPlan 100 0 10 ?L3 0 = Fin 3" by simp
  have w1: "specGoalWealth 0 0 0 ?L1 0 = 0" "specGoalWealth 0 0 0 ?L1 1 = 100"
    by (simp_all add: specLumpOfMonth_def)
  have "(1::nat) \<le> 1200 \<and> 50 \<le> specGoalWealth 0 0 0 ?L1 1 \<and>
        (\<forall>j<1. specGoalWealth 0 0 0 ?L1 j < 50)"
    using w1 by auto
  moreover have "(0::real) < 50" by simp
  ultimately have "monthsToGoalAtCurrentPlan 50 0 0 ?L1 0 = Fin (real (1::nat))"
    using monthsToGoalAtCurrentPlan_first_month [of 50 0 0 ?L1 0] by blast
  then have d: "monthsToGoalAtCurrentPlan 50 0 0 ?L1 0 = Fin 1" by simp
  have neg: "specGoalWealth 0 0 0 ?N k \<le> 0" for k
    by (induction k) (simp_all add: specLumpOfMonth_def)
  have "\<forall>k\<le>1200. specGoalWealth 0 0 0 ?N k < 1"
  proof (intro allI impI)
    fix k :: nat
    show "specGoalWealth 0 0 0 ?N k < 1" using neg [of k] by linarith
  qed
  moreover have "(0::real) < 1" by simp
  ultimately have e: "monthsToGoalAtCurrentPlan 1 0 0 ?N 0 = PInf"
    using monthsToGoalAtCurrentPlan_first_month [of 1 0 0 ?N 0] by blast
  from a b c d e show ?thesis by simp
qed

lemma goalLoop_ge:
  "goalLoop byMonth s r targetWealth cap t W = Fin x \<Longrightarrow> real_of_int t \<le> x"
proof (induction byMonth s r targetWealth cap t W rule: goalLoop.induct)
  case (1 byMonth s r targetWealth cap t W)
  show ?case
  proof (cases "t \<le> cap \<and> \<not> targetWealth \<le> W")
    case True
    then have "goalLoop byMonth s r targetWealth cap (t + 1)
                 (W * (1 + r) + s + getOr0 byMonth (t + 1)) = Fin x"
      using "1.prems" by (subst (asm) goalLoop.simps) simp
    then have "real_of_int (t + 1) \<le> x" using True "1.IH" by blast
    then show ?thesis by simp
  next
    case False
    then show ?thesis
      using "1.prems" by (subst (asm) goalLoop.simps) (auto split: if_splits)
  qed
qed

lemma goalClip_below: "mo \<le> 0 \<Longrightarrow> goalClip mo = 1"
proof -
  assume "mo \<le> 0"
  then have "\<lfloor>mo\<rfloor> \<le> 0" using floor_mono [of mo 0] by simp
  then show ?thesis unfolding goalClip_def by linarith
qed

lemma goalLoop_first_step:
  assumes "W < targetWealth"
  shows "goalLoop byMonth s r targetWealth 1200 0 W = Fin 1 \<longleftrightarrow>
         targetWealth \<le> W * (1 + r) + s + getOr0 byMonth 1"
proof
  assume "targetWealth \<le> W * (1 + r) + s + getOr0 byMonth 1"
  then have "goalLoop byMonth s r targetWealth 1200 0 W = Fin (of_int (0 + int 1))"
    using assms by (intro goalLoop_found) simp_all
  then show "goalLoop byMonth s r targetWealth 1200 0 W = Fin 1" by simp
next
  assume res: "goalLoop byMonth s r targetWealth 1200 0 W = Fin 1"
  let ?W' = "W * (1 + r) + s + getOr0 byMonth 1"
  from res assms have one: "goalLoop byMonth s r targetWealth 1200 1 ?W' = Fin 1"
    by (subst (asm) goalLoop.simps) simp
  show "targetWealth \<le> ?W'"
  proof (rule ccontr)
    assume "\<not> targetWealth \<le> ?W'"
    then have "goalLoop byMonth s r targetWealth 1200 2
                 (?W' * (1 + r) + s + getOr0 byMonth 2) = Fin 1"
      using one by (subst (asm) goalLoop.simps) simp
    then have "real_of_int 2 \<le> 1" by (rule goalLoop_ge)
    then show False by simp
  qed
qed

text \<open>
  C9. The estimator buckets a lump sum at \<open>max 1 (floor month)\<close>, with no upper
  clip. A lump sum with month \<open>\<le> 0\<close> therefore lands in bucket 1 and is paid in
  the first simulated step (the estimator answers 1 exactly when the wealth after
  that step, the amount included, reaches the target), while the single-regime
  projection gives the same series with or without it.
\<close>

theorem goal_estimator_lump_clipping:
  "getOr0 (addLumps goalClip lumps Map.empty) k =
     sum_list (map amount (filter (\<lambda>l. max 1 \<lfloor>month l\<rfloor> = k) lumps)) \<and>
   (1 \<le> mo \<longrightarrow> goalClip mo = \<lfloor>mo\<rfloor>) \<and>
   (month ls \<le> 0 \<longrightarrow>
      getOr0 (addLumps goalClip (xs @ ls # ys) Map.empty) k =
        getOr0 (addLumps goalClip (xs @ ys) Map.empty) k + (if k = 1 then amount ls else 0) \<and>
      (0 < target \<and> cw < target \<longrightarrow>
         (monthsToGoalAtCurrentPlan target cw s (xs @ ls # ys) r = Fin 1 \<longleftrightarrow>
          target \<le> cw * (1 + r) + s + getOr0 (addLumps goalClip (xs @ ys) Map.empty) 1
                     + amount ls)) \<and>
      projectToRetirement cw s months r (xs @ ls # ys) =
        projectToRetirement cw s months r (xs @ ys))"
proof (intro conjI impI)
  show "getOr0 (addLumps goalClip lumps Map.empty) k =
     sum_list (map amount (filter (\<lambda>l. max 1 \<lfloor>month l\<rfloor> = k) lumps))"
    by (simp add: addLumps_getOr0 goalClip_def)
next
  assume "1 \<le> mo"
  then have "1 \<le> \<lfloor>mo\<rfloor>" by (simp add: le_floor_iff)
  then show "goalClip mo = \<lfloor>mo\<rfloor>" unfolding goalClip_def by linarith
next
  assume le: "month ls \<le> 0"
  show b: "getOr0 (addLumps goalClip (xs @ ls # ys) Map.empty) k =
        getOr0 (addLumps goalClip (xs @ ys) Map.empty) k + (if k = 1 then amount ls else 0)"
    using le by (auto simp: addLumps_insert goalClip_below)
  show "projectToRetirement cw s months r (xs @ ls # ys) =
        projectToRetirement cw s months r (xs @ ys)"
    using le by (simp add: projectToRetirement_drop_bucket0 clipMonth_below)
next
  assume le: "month ls \<le> 0" and t: "0 < target \<and> cw < target"
  have b1: "getOr0 (addLumps goalClip (xs @ ls # ys) Map.empty) 1 =
        getOr0 (addLumps goalClip (xs @ ys) Map.empty) 1 + amount ls"
    using le by (simp add: addLumps_insert goalClip_below)
  show "monthsToGoalAtCurrentPlan target cw s (xs @ ls # ys) r = Fin 1 \<longleftrightarrow>
        target \<le> cw * (1 + r) + s + getOr0 (addLumps goalClip (xs @ ys) Map.empty) 1 + amount ls"
    using t by (simp add: monthsToGoalAtCurrentPlan_def goalLoop_first_step b1 add.assoc)
qed

theorem goal_estimator_lump_clipping_witness:
  "(1::real) \<le> 2000 \<and> goalClip 2000 = 2000 \<and>
   month \<lparr>lump_id = 1, month = - 5, amount = 100\<rparr> \<le> 0 \<and>
   (0::real) < 50 \<and>
   monthsToGoalAtCurrentPlan 50 0 0 [\<lparr>lump_id = 1, month = - 5, amount = 100\<rparr>] 0 = Fin 1 \<and>
   projectToRetirement 0 0 3 0 [\<lparr>lump_id = 1, month = - 5, amount = 100\<rparr>] =
     projectToRetirement 0 0 3 0 []"
  using goal_estimator_lump_clipping
          [where mo = 2000 and ls = "\<lparr>lump_id = 1, month = - 5, amount = 100\<rparr>"
             and xs = "[]" and ys = "[]" and target = 50 and cw = 0 and s = 0 and r = 0
             and months = 3 and lumps = "[]" and k = 1]
  by simp

section \<open>Monotonicity of the end wealth\<close>

lemma accumW_mono_rate:
  "- 1 \<le> r1 \<Longrightarrow> r1 \<le> r2 \<Longrightarrow>
   (\<And>j. j < k \<Longrightarrow> 0 \<le> accumW byMonth s r1 t W j) \<Longrightarrow>
   accumW byMonth s r1 t W k \<le> accumW byMonth s r2 t W k"
proof (induction k)
  case 0
  show ?case by simp
next
  case (Suc k)
  have le: "accumW byMonth s r1 t W k \<le> accumW byMonth s r2 t W k"
    using Suc.prems by (intro Suc.IH) simp_all
  have nonneg: "0 \<le> accumW byMonth s r1 t W k" using Suc.prems(3) [of k] by simp
  have "accumW byMonth s r1 t W k * (1 + r1) \<le> accumW byMonth s r2 t W k * (1 + r2)"
    using le nonneg Suc.prems(1,2) by (intro mult_mono) simp_all
  then show ?case by simp
qed

lemma accumW_mono_flow:
  "- 1 \<le> r \<Longrightarrow> s1 \<le> s2 \<Longrightarrow> accumW byMonth s1 r t W k \<le> accumW byMonth s2 r t W k"
proof (induction k)
  case 0
  show ?case by simp
next
  case (Suc k)
  have "accumW byMonth s1 r t W k * (1 + r) \<le> accumW byMonth s2 r t W k * (1 + r)"
    using Suc by (intro mult_right_mono) simp_all
  then show ?case using Suc.prems(2) by simp
qed

lemma wealthAtRetireWithMonthlyAccum_eq:
  "wealthAtRetireWithMonthlyAccum cw s n lumps r =
   (if 0 \<le> n then accumW (addLumps (clipMonth n) lumps Map.empty) s r 0 cw (nat n) else cw)"
proof (cases "0 \<le> n")
  case True
  then show ?thesis
    by (simp add: wealthAtRetireWithMonthlyAccum_def lastWealth_def projectToRetirement_def
        accumLoop_nonempty accumLoop_last)
next
  case False
  then show ?thesis
    by (simp add: wealthAtRetireWithMonthlyAccum_def lastWealth_def projectToRetirement_def
        accumLoop.simps)
qed

lemma projectToRetirement_butlast:
  "butlast (projectToRetirement cw s n r lumps) =
   map (\<lambda>k. \<lparr>m = int k, wealth = accumW (addLumps (clipMonth n) lumps Map.empty) s r 0 cw k\<rparr>)
     [0..<nat (n + 1) - 1]"
  by (simp add: projectToRetirement_rows butlast_conv_take take_map del: upt_Suc)

text \<open>
  C2, as stated, fails. With start wealth 0 and a monthly saving of \<open>-10\<close> over two
  months, raising the monthly rate from 0 to 1 lowers the end wealth from \<open>-20\<close> to
  \<open>-30\<close>: a negative running wealth is compounded too. With a monthly rate of
  \<open>-3\<close> (so \<open>1 + rate < 0\<close>), raising the saving from 0 to 1 lowers the end wealth
  from 0 to \<open>-1\<close>.
\<close>

theorem end_wealth_not_monotone:
  "(0::real) \<le> 1 \<and>
   wealthAtRetireWithMonthlyAccum 0 (- 10) 2 [] 1 < wealthAtRetireWithMonthlyAccum 0 (- 10) 2 [] 0 \<and>
   (0::real) \<le> 1 \<and>
   wealthAtRetireWithMonthlyAccum 0 1 2 [] (- 3) < wealthAtRetireWithMonthlyAccum 0 0 2 [] (- 3)"
  by (simp add: wealthAtRetireWithMonthlyAccum_def lastWealth_def projectToRetirement_def
      accumLoop.simps)

text \<open>
  C2, amended. The end wealth of the single-regime projection is non-decreasing in
  the monthly rate over rates \<open>\<ge> -1\<close> when every row before the last is
  non-negative at the lower rate; it is non-decreasing in the monthly saving for
  every monthly rate \<open>\<ge> -1\<close>, whatever the signs of start wealth, saving and
  lump sums.
\<close>

theorem end_wealth_monotone:
  "(- 1 \<le> r1 \<and> r1 \<le> r2 \<and>
      (\<forall>row \<in> set (butlast (projectToRetirement cw s n r1 lumps)). 0 \<le> wealth row) \<longrightarrow>
      wealthAtRetireWithMonthlyAccum cw s n lumps r1 \<le>
        wealthAtRetireWithMonthlyAccum cw s n lumps r2) \<and>
   (- 1 \<le> r \<and> s1 \<le> s2 \<longrightarrow>
      wealthAtRetireWithMonthlyAccum cw s1 n lumps r \<le>
        wealthAtRetireWithMonthlyAccum cw s2 n lumps r)"
proof (intro conjI impI)
  assume a: "- 1 \<le> r1 \<and> r1 \<le> r2 \<and>
      (\<forall>row \<in> set (butlast (projectToRetirement cw s n r1 lumps)). 0 \<le> wealth row)"
  let ?bm = "addLumps (clipMonth n) lumps Map.empty"
  have nonneg: "0 \<le> accumW ?bm s r1 0 cw j" if "j < nat n" for j
  proof -
    from that have "j \<in> set [0..<nat (n + 1) - 1]" by simp
    then have "\<lparr>m = int j, wealth = accumW ?bm s r1 0 cw j\<rparr>
               \<in> set (butlast (projectToRetirement cw s n r1 lumps))"
      unfolding projectToRetirement_butlast set_map by (rule imageI)
    with a have "0 \<le> wealth \<lparr>m = int j, wealth = accumW ?bm s r1 0 cw j\<rparr>" by blast
    then show ?thesis by simp
  qed
  show "wealthAtRetireWithMonthlyAccum cw s n lumps r1 \<le>
        wealthAtRetireWithMonthlyAccum cw s n lumps r2"
    unfolding wealthAtRetireWithMonthlyAccum_eq
    using a nonneg by (simp add: accumW_mono_rate)
next
  assume "- 1 \<le> r \<and> s1 \<le> s2"
  then show "wealthAtRetireWithMonthlyAccum cw s1 n lumps r \<le>
             wealthAtRetireWithMonthlyAccum cw s2 n lumps r"
    unfolding wealthAtRetireWithMonthlyAccum_eq by (simp add: accumW_mono_flow)
qed

theorem end_wealth_monotone_witness:
  "- 1 \<le> (0::real) \<and> (0::real) \<le> 1 \<and>
   list_all (\<lambda>row. 0 \<le> wealth row) (butlast (projectToRetirement 100 (- 10) 2 0 [])) \<and>
   wealthAtRetireWithMonthlyAccum 100 (- 10) 2 [] 0 \<le> wealthAtRetireWithMonthlyAccum 100 (- 10) 2 [] 1 \<and>
   (- 10 :: real) \<le> 5 \<and>
   wealthAtRetireWithMonthlyAccum 100 (- 10) 2 [] 0 \<le> wealthAtRetireWithMonthlyAccum 100 5 2 [] 0"
proof -
  have rows: "list_all (\<lambda>row. 0 \<le> wealth row) (butlast (projectToRetirement 100 (- 10) 2 0 []))"
    by (simp add: projectToRetirement_def accumLoop.simps)
  then have "\<forall>row \<in> set (butlast (projectToRetirement 100 (- 10) 2 0 [])). 0 \<le> wealth row"
    unfolding list_all_iff .
  then have "wealthAtRetireWithMonthlyAccum 100 (- 10) 2 [] 0 \<le> wealthAtRetireWithMonthlyAccum 100 (- 10) 2 [] 1 \<and>
     wealthAtRetireWithMonthlyAccum 100 (- 10) 2 [] 0 \<le> wealthAtRetireWithMonthlyAccum 100 5 2 [] 0"
    using end_wealth_monotone
            [where ?r1.0 = 0 and ?r2.0 = 1 and cw = 100 and s = "- 10" and n = 2 and lumps = "[]"
               and r = 0 and ?s1.0 = "- 10" and ?s2.0 = 5]
    by simp
  with rows show ?thesis by simp
qed

section \<open>Required-return solver\<close>

lemma nan_comparisons [simp]:
  "prodPos (Some x) (Some y) = (x * y > 0)" "prodPos None b = False" "prodPos a None = False"
  "prodNonpos (Some x) (Some y) = (x * y \<le> 0)" "prodNonpos None b = False"
  "prodNonpos a None = False"
  "absLt1 (Some x) = (\<bar>x\<bar> < 1)" "absLt1 None = False"
  by (simp_all add: prodPos_def prodNonpos_def absLt1_def split: option.splits)

lemma wealthAtRetire_eq:
  "wealthAtRetire cw s n r lumps = wealthAtRetireWithMonthlyAccum cw s n lumps r"
  by (simp add: wealthAtRetire_def wealthAtRetireWithMonthlyAccum_def)

text \<open>
  The two guards of the solver: a non-positive horizon gives \<open>null\<close>; a positive
  horizon with the projected wealth at or above the target gives 0.
\<close>

lemma solver_guards:
  "(mtr \<le> 0 \<longrightarrow> solveRequiredMonthlyAccum cw s mtr r lumps target = Null) \<and>
   (0 < mtr \<and> target \<le> wealthAtRetire cw s mtr r lumps \<longrightarrow>
      solveRequiredMonthlyAccum cw s mtr r lumps target = Rate 0)"
  by (simp add: solveRequiredMonthlyAccum_def Let_def)

subsection \<open>The guard of the unsolvable result is never true\<close>

text \<open>
  The third expansion moves the lower end to \<open>-1.25\<close>, where \<open>toMonthly\<close> is
  \<open>NaN\<close>; the product \<open>fLo * fHi\<close> is then \<open>NaN\<close>, the loop stops, and the
  test \<open>fLo * fHi > 0\<close> that guards \<open>return null\<close> is false.
\<close>

lemma expandLoop_no_bracket:
  "(\<forall>a. a < - 1 \<longrightarrow> f a = None) \<Longrightarrow>
   loA = - (1 / 2) - real i / 4 \<Longrightarrow> hiA = 1 / 2 + real i / 4 \<Longrightarrow>
   (3 \<le> i \<longrightarrow> fLo = None) \<Longrightarrow>
   \<not> prodPos (fst (snd (snd (expandLoop f i loA hiA fLo fHi))))
               (snd (snd (snd (expandLoop f i loA hiA fLo fHi))))"
proof (induction f i loA hiA fLo fHi rule: expandLoop.induct)
  case (1 f i loA hiA fLo fHi)
  show ?case
  proof (cases "i < 10 \<and> prodPos fLo fHi")
    case False
    then show ?thesis using "1.prems"(4) by (subst (1 2) expandLoop.simps) auto
  next
    case True
    then have i3: "i < 3" using "1.prems"(4) by (cases "3 \<le> i") auto
    have hi: "\<not> 3 < hiA + 0.25" using i3 "1.prems"(3) by simp
    have unfold: "expandLoop f i loA hiA fLo fHi =
          expandLoop f (i + 1) (loA - 0.25) (hiA + 0.25) (f (loA - 0.25)) (f (hiA + 0.25))"
      using True hi by (subst expandLoop.simps) (simp add: Let_def)
    have "\<not> prodPos (fst (snd (snd (expandLoop f (i + 1) (loA - 0.25) (hiA + 0.25)
                                     (f (loA - 0.25)) (f (hiA + 0.25))))))
                     (snd (snd (snd (expandLoop f (i + 1) (loA - 0.25) (hiA + 0.25)
                                     (f (loA - 0.25)) (f (hiA + 0.25))))))"
    proof (rule "1.IH" [OF True refl refl refl refl hi "1.prems"(1)])
      show "loA - 0.25 = - (1 / 2) - real (i + 1) / 4"
        using "1.prems"(2) by (simp add: field_simps)
      show "hiA + 0.25 = 1 / 2 + real (i + 1) / 4"
        using "1.prems"(3) by (simp add: field_simps)
      show "3 \<le> i + 1 \<longrightarrow> f (loA - 0.25) = None"
      proof
        assume "3 \<le> i + 1"
        with i3 have "i = 2" by simp
        then have "loA - 0.25 < - 1" using "1.prems"(2) by simp
        then show "f (loA - 0.25) = None" using "1.prems"(1) by blast
      qed
    qed
    then show ?thesis unfolding unfold .
  qed
qed

lemma solveRequiredMonthlyAccum_never_Null:
  assumes "0 < mtr"
  shows "solveRequiredMonthlyAccum cw s mtr r lumps target \<noteq> Null"
proof -
  let ?f = "\<lambda>annual. fAt cw s mtr lumps target (toMonthly annual)"
  have nan: "?f a = None" if "a < - 1" for a
    using that assms by (simp add: fAt_def toMonthly_def)
  obtain loA hiA fLo fHi where
    e: "expandLoop ?f 0 (- 0.5) 0.5 (?f (- 0.5)) (?f 0.5) = (loA, hiA, fLo, fHi)"
    by (cases "expandLoop ?f 0 (- 0.5) 0.5 (?f (- 0.5)) (?f 0.5)") auto
  have "\<not> prodPos (fst (snd (snd (expandLoop ?f 0 (- 0.5) 0.5 (?f (- 0.5)) (?f 0.5)))))
                   (snd (snd (snd (expandLoop ?f 0 (- 0.5) 0.5 (?f (- 0.5)) (?f 0.5)))))"
    by (rule expandLoop_no_bracket) (simp_all add: nan)
  then have "\<not> prodPos fLo fHi" unfolding e by simp
  then show ?thesis
    using assms unfolding solveRequiredMonthlyAccum_def Let_def e by simp
qed

subsection \<open>A plan that no rate of return can bring to the target\<close>

lemma accumW_zero: "accumW Map.empty 0 r t 0 k = 0"
  by (induction k) simp_all

lemma no_rate_reaches_target:
  "wealthAtRetireWithMonthlyAccum 0 0 12 [] rate < 240000000 / 7"
  by (simp add: wealthAtRetireWithMonthlyAccum_eq accumW_zero)

lemma fAt_zero_plan:
  "fAt 0 0 12 [] (240000000 / 7) (toMonthly a) =
   (if 1 + a < 0 then None else Some (- (240000000 / 7)))"
  by (simp add: fAt_def toMonthly_def wealthAtRetireWithMonthlyAccum_eq accumW_zero)

text \<open>
  C3. The plan has no wealth, no saving and no lump sums, 12 months to retirement and
  the target \<open>1200000 / 0.035\<close>. The end wealth is 0 at every rate, so no bracket
  has a sign change; the solver nevertheless does not return \<open>null\<close>: it bisects
  on \<open>[0, 1.25]\<close> and returns \<open>1.25 - 1.25 / 2^40\<close>.
\<close>

theorem solver_unreachable_target_returns_rate:
  "solveRequiredMonthlyAccum 0 0 12 0 [] (240000000 / 7) = Rate (5 / 4 - 5 / (4 * 2 ^ 40))"
proof -
  let ?f = "\<lambda>annual. fAt 0 0 12 [] (240000000 / 7) (toMonthly annual)"
  have f: "?f = (\<lambda>a. if 1 + a < 0 then None else Some (- (240000000 / 7)))"
    by (rule ext) (simp add: fAt_zero_plan)
  have w: "wealthAtRetire 0 0 12 0 [] = 0"
    by (simp add: wealthAtRetire_eq wealthAtRetireWithMonthlyAccum_eq accumW_zero)
  have e: "expandLoop ?f 0 (- 0.5) 0.5 (?f (- 0.5)) (?f 0.5) =
           (- (5 / 4), 5 / 4, None, Some (- (240000000 / 7)))"
    unfolding f by (simp add: expandLoop.simps fAt_zero_plan)
  have b: "bisectLoop ?f 0 (- (5 / 4)) (5 / 4) None (Some (- (240000000 / 7))) =
           5 / 4 - 5 / (4 * 2 ^ 40)"
    unfolding f by (simp add: bisectLoop.simps)
  show ?thesis
    unfolding solveRequiredMonthlyAccum_def Let_def w e by (simp add: b)
qed

subsection \<open>The unsolvable outcome is reported as a rate\<close>

lemma fAt_empty_plan:
  "1 \<le> mtr \<Longrightarrow>
   fAt 0 0 mtr [] T (toMonthly a) = (if 1 + a < 0 then None else Some (- T))"
  by (simp add: fAt_def toMonthly_def wealthAtRetireWithMonthlyAccum_eq accumW_zero)

lemma no_rate_reaches_target_24:
  "wealthAtRetireWithMonthlyAccum 0 0 24 [] rate < 15000000"
  by (simp add: wealthAtRetireWithMonthlyAccum_eq accumW_zero)

text \<open>
  C1. The three outcomes are not all reported. The plan has no wealth, no saving and
  no lump sums, 24 months to retirement and the target \<open>600000 / 0.04\<close>; the end
  wealth is 0 at every rate, so no bracket with a sign change exists and the outcome
  is "unsolvable". The solver returns the number \<open>1.25 - 1.25 / 2^40\<close>, as it
  would for a plan that a return of about 125% a year brings to the target; the same
  plan with a horizon of 0 months gives \<open>null\<close>.
\<close>

theorem solver_unsolvable_reported_as_rate:
  "solveRequiredMonthlyAccum 0 0 24 0 [] 15000000 = Rate (5 / 4 - 5 / (4 * 2 ^ 40)) \<and>
   solveRequiredMonthlyAccum 0 0 24 0 [] 15000000 \<noteq> Null \<and>
   solveRequiredMonthlyAccum 0 0 0 0 [] 15000000 = Null"
proof -
  let ?f = "\<lambda>annual. fAt 0 0 24 [] 15000000 (toMonthly annual)"
  have f: "?f = (\<lambda>a. if 1 + a < 0 then None else Some (- 15000000))"
    by (rule ext) (simp add: fAt_empty_plan)
  have w: "wealthAtRetire 0 0 24 0 [] = 0"
    by (simp add: wealthAtRetire_eq wealthAtRetireWithMonthlyAccum_eq accumW_zero)
  have e: "expandLoop ?f 0 (- 0.5) 0.5 (?f (- 0.5)) (?f 0.5) =
           (- (5 / 4), 5 / 4, None, Some (- 15000000))"
    unfolding f by (simp add: expandLoop.simps fAt_empty_plan)
  have b: "bisectLoop ?f 0 (- (5 / 4)) (5 / 4) None (Some (- 15000000)) =
           5 / 4 - 5 / (4 * 2 ^ 40)"
    unfolding f by (simp add: bisectLoop.simps)
  have r: "solveRequiredMonthlyAccum 0 0 24 0 [] 15000000 = Rate (5 / 4 - 5 / (4 * 2 ^ 40))"
    unfolding solveRequiredMonthlyAccum_def Let_def w e by (simp add: b)
  have n: "solveRequiredMonthlyAccum 0 0 0 0 [] 15000000 = Null"
    by (simp add: solveRequiredMonthlyAccum_def)
  from r n show ?thesis by simp
qed

end
